theory Spec2Isabelle
  imports Complex_Main "HOL-Library.Word" "HOL-Library.Product_Lexorder" "HOL-Library.Multiset"
begin

section \<open>Data model (internal/domain)\<close>

text \<open>
  Money and ratios are \<^typ>\<open>real\<close>: the Go code uses \<open>float64\<close>, the database
  \<open>DECIMAL(19,4)\<close>; rounding of binary floating point is not modelled. Points in time and
  durations are nanoseconds (\<open>time.Duration\<close> is an \<open>int64\<close> count of nanoseconds).
  Fields that no modelled function reads or writes (names, credentials, request metadata)
  are left out of the records.
\<close>

datatype status = PENDING | PROCESSING | SUCCESS | FAILED | REFUND | TIMEOUT

datatype mutation_type = DEBIT | CREDIT

datatype stock_status = AVAILABLE | OUT_OF_STOCK | UNKNOWN

record Transaction =
  trx_ID :: string
  trx_TrxCode :: string
  trx_UserID :: string
  trx_ProductID :: string
  trx_SupplierID :: "string option"
  trx_DestinationNumber :: string
  trx_ProductCode :: string
  trx_HPP :: real
  trx_SellingPrice :: real
  trx_AdminFee :: real
  trx_Status :: status
  trx_SerialNumber :: "string option"
  trx_SupplierMessage :: "string option"
  trx_SupplierTrxID :: "string option"
  trx_RoutingAttempts :: int
  trx_FinalSupplierID :: "string option"
  trx_CreatedAt :: int
  trx_UpdatedAt :: int
  trx_ProcessedAt :: "int option"
  trx_CompletedAt :: "int option"

record Mutation =
  mut_ID :: string
  mut_UserID :: string
  mut_Type :: mutation_type
  mut_Amount :: real
  mut_BalanceBefore :: real
  mut_BalanceAfter :: real
  mut_ReferenceType :: "string option"
  mut_ReferenceID :: "string option"
  mut_Description :: string
  mut_CreatedAt :: int

record User =
  usr_ID :: string
  usr_Level :: int
  usr_IsActive :: bool
  usr_Balance :: real
  usr_CreditLimit :: real
  usr_MarkupPercentage :: real
  usr_AllowDebt :: bool

record Product =
  prd_ID :: string
  prd_Code :: string
  prd_IsActive :: bool
  prd_BasePrice :: real
  prd_MinPrice :: real
  prd_MaxTransactionAmount :: real

record Supplier =
  sup_ID :: string
  sup_Code :: string
  sup_IsActive :: bool
  sup_Priority :: int
  sup_Balance :: real
  sup_MinBalanceThreshold :: real
  sup_SuccessRate :: real
  sup_AvgResponseTimeMs :: int
  sup_TotalTransactions :: int
  sup_FailedTransactions :: int
  sup_LastCheckedAt :: "int option"
  sup_LastSuccessAt :: "int option"

record ProductMapping =
  pm_ID :: string
  pm_ProductID :: string
  pm_SupplierID :: string
  pm_SupplierProductCode :: string
  pm_SupplierPrice :: real
  pm_Priority :: int
  pm_IsActive :: bool
  pm_StockStatus :: stock_status
  pm_SuccessCount :: int
  pm_FailureCount :: int

definition LevelAdmin :: int where
  "LevelAdmin = 4"

definition MinSuccessRateThreshold :: real where
  "MinSuccessRateThreshold = 50"

definition ReferenceTypeTransaction :: string where
  "ReferenceTypeTransaction = ''TRANSACTION''"

text \<open>Go's conversion of a float to an integer type drops the fraction (towards zero).\<close>

definition trunc :: "real \<Rightarrow> int" where
  "trunc r = (if r \<ge> 0 then \<lfloor>r\<rfloor> else \<lceil>r\<rceil>)"

subsection \<open>Methods of Transaction, User and Supplier\<close>

definition IsFinalStatus :: "Transaction \<Rightarrow> bool" where
  "IsFinalStatus t =
     (trx_Status t = SUCCESS \<or> trx_Status t = FAILED \<or> trx_Status t = REFUND
      \<or> trx_Status t = TIMEOUT)"

definition CanRetry :: "Transaction \<Rightarrow> bool" where
  "CanRetry t = (trx_Status t = FAILED \<and> trx_RoutingAttempts t < 3)"

definition GetEffectivePrice :: "User \<Rightarrow> real \<Rightarrow> real" where
  "GetEffectivePrice u basePrice =
     (if usr_Level u = LevelAdmin then basePrice
      else basePrice * (1 + usr_MarkupPercentage u / 100))"

definition HasSufficientBalance :: "User \<Rightarrow> real \<Rightarrow> bool" where
  "HasSufficientBalance u amount =
     (if usr_AllowDebt u then usr_Balance u + usr_CreditLimit u \<ge> amount
      else usr_Balance u \<ge> amount)"

definition IsHealthy :: "Supplier \<Rightarrow> bool" where
  "IsHealthy s =
     (if \<not> sup_IsActive s then False
      else if sup_SuccessRate s < MinSuccessRateThreshold then False
      else if sup_Balance s < sup_MinBalanceThreshold s then False
      else True)"


section \<open>Phone numbers (pkg/utils)\<close>

text \<open>
  A Go string is a sequence of bytes. The regular expression \<open>[^\d]\<close> matches every
  code point that is not one of the ASCII digits, and no byte of a longer UTF-8 sequence
  is an ASCII digit, so replacing the matches by the empty string keeps exactly the digit
  bytes.
\<close>

definition isDigit :: "char \<Rightarrow> bool" where
  "isDigit c = (48 \<le> (of_char c :: nat) \<and> (of_char c :: nat) \<le> 57)"

definition HasPrefix :: "string \<Rightarrow> string \<Rightarrow> bool" where
  "HasPrefix s p = (take (length p) s = p)"

definition ParsePhoneNumber :: "string \<Rightarrow> string" where
  "ParsePhoneNumber phone =
     (let p = filter isDigit phone
      in if HasPrefix p ''0'' then ''62'' @ drop 1 p else p)"

definition ValidatePhoneNumber :: "string \<Rightarrow> bool" where
  "ValidatePhoneNumber phone =
     (let normalized = ParsePhoneNumber phone
      in if \<not> HasPrefix normalized ''62'' then False
         else (let digits = drop 2 normalized
               in length digits \<ge> 9 \<and> length digits \<le> 13))"

section \<open>The environment: database, queue, adapters, clock and randomness\<close>

text \<open>
  The results of a TopUp call of a supplier adapter (the concrete HTTP adapters are
  outside the model): the response, if any, the error, if any, and the time the call took.
\<close>

record SupplierResponse =
  rsp_Success :: bool
  rsp_Message :: string
  rsp_TrxID :: string
  rsp_SerialNumber :: string
  rsp_ResponseTime :: int

record TopUpOutcome =
  out_Response :: "SupplierResponse option"
  out_Err :: "string option"
  out_Elapsed :: int

datatype error =
    MissingRequiredFields
  | InvalidPhoneNumberFormat
  | UserNotFound
  | UserNotActive
  | ProductNotFound
  | ProductNotAvailable
  | PriceOutOfRange
  | InsufficientBalance
  | FailedToCreateTransaction
  | TransactionNotFound
  | TransactionNotPending
  | FailedToUpdateProcessingStatus
  | FailedToGetUser
  | FailedToCreateBalanceMutation
  | FailedToRefundAfterSupplierFailure
  | SupplierFailure string
  | TransactionCannotBeRetried
  | FailedToIncrementRoutingAttempts
  | FailedToResetTransactionStatus
  | CannotCancelTransaction status
  | FailedToCancelTransaction
  | FailedToGetUserForRefund
  | FailedToCreateRefundMutation
  | MutationRepositoryNotConfigured
  | FailedToCreateMutation
  | SmartRoutingNotConfigured
  | FailedToGetProductMappings
  | NoActiveMappingsFound
  | NoHealthySuppliersAvailable
  | NoSupplierAvailable
  | AdapterNotFound
  | SupplierNotFound
  | FailedToUpdateSupplierMetrics
  | FailedToUpdateTransactionForRefund
  | FailedToUpdateTransaction
  | FailedToUpdateSuccessfulTransaction
  | TransactionCannotBeRetriedByController
  | FailedToGetSuppliers
  | NoSuppliersAvailableForRetry
  | AllRetryAttemptsFailed
  | SupplierCallTimeout
  | SupplierCallError
  | StorageError
  | RowNotFound
  | NilPointerDereference

text \<open>
  The tables are lists of rows. \<open>faults\<close> is the sequence of outcomes of the coming
  database and queue calls (\<open>True\<close>: the call fails), \<open>rand_src\<close> the coming values of
  \<open>crypto/rand\<close>, \<open>uuid_src\<close> the coming UUIDs, \<open>slept\<close> the durations of the calls of
  \<open>time.Sleep\<close> so far, latest last. The five flags say which collaborators the use case
  was constructed with (a nil collaborator is \<open>False\<close>).
\<close>

record world =
  transactions :: "Transaction list"
  users :: "User list"
  products :: "Product list"
  suppliers :: "Supplier list"
  product_mappings :: "ProductMapping list"
  mutations :: "Mutation list"
  queue :: "string list"
  adapters :: "(string \<times> TopUpOutcome) list"
  clock :: int
  today :: string
  slept :: "int list"
  rand_src :: "nat list"
  uuid_src :: "string list"
  faults :: "bool list"
  has_queueRepo :: bool
  has_mutationRepo :: bool
  has_smartRoutingUC :: bool
  has_adapterFactory :: bool
  has_retryUC :: bool

definition db_call :: "world \<Rightarrow> bool \<times> world" where
  "db_call w =
     (case faults w of
        [] \<Rightarrow> (True, w)
      | f # fs \<Rightarrow> (\<not> f, w\<lparr> faults := fs \<rparr>))"

definition rand_Int :: "nat \<Rightarrow> world \<Rightarrow> nat \<times> world" where
  "rand_Int bound w =
     (case rand_src w of
        [] \<Rightarrow> (0, w)
      | n # ns \<Rightarrow> (n mod bound, w\<lparr> rand_src := ns \<rparr>))"

definition Sleep :: "int \<Rightarrow> world \<Rightarrow> world" where
  "Sleep d w = w\<lparr> clock := clock w + max d 0, slept := slept w @ [d] \<rparr>"

definition GenerateUUID :: "world \<Rightarrow> string \<times> world" where
  "GenerateUUID w =
     (case uuid_src w of
        [] \<Rightarrow> ([], w)
      | u # us \<Rightarrow> (u, w\<lparr> uuid_src := us \<rparr>))"

definition charset :: string where
  "charset = ''abcdefghijklmnopqrstuvwxyzABCDEFGHIJKLMNOPQRSTUVWXYZ0123456789''"

fun GenerateRandomString :: "nat \<Rightarrow> world \<Rightarrow> string \<times> world" where
  "GenerateRandomString 0 w = ([], w)"
| "GenerateRandomString (Suc n) w =
     (let (i, w1) = rand_Int (length charset) w;
          (rest, w2) = GenerateRandomString n w1
      in (charset ! i # rest, w2))"

text \<open>\<open>GenerateRandomString(1)[0]\<close>, as a number.\<close>

definition random_byte :: "world \<Rightarrow> nat \<times> world" where
  "random_byte w =
     (let (s, w1) = GenerateRandomString 1 w in (of_char (hd s), w1))"

definition pad4 :: "nat \<Rightarrow> string" where
  "pad4 n = map (\<lambda>d. char_of (48 + d))
              [n div 1000 mod 10, n div 100 mod 10, n div 10 mod 10, n mod 10]"

definition GenerateTrxCode :: "world \<Rightarrow> string \<times> world" where
  "GenerateTrxCode w =
     (let (n, w1) = rand_Int 9999 w
      in (''TRX-'' @ today w @ ''-'' @ pad4 n, w1))"

section \<open>Repositories (internal/repository)\<close>

text \<open>
  Every repository method is one database call: it fails when the database does, and
  otherwise does what its SQL statement says. \<open>INSERT INTO transactions\<close> names neither
  \<open>routing_attempts\<close> nor the result columns nor the timestamps, which take the defaults
  of the schema; \<open>id\<close> is the primary key and \<open>trx_code\<close> is unique. A trigger stamps
  \<open>updated_at\<close> on every update.
\<close>

definition transactionRepo_Create :: "Transaction \<Rightarrow> world \<Rightarrow> (error + unit) \<times> world" where
  "transactionRepo_Create t w =
     (let (ok, w1) = db_call w
      in if \<not> ok then (Inl StorageError, w1)
         else if list_ex (\<lambda>r. trx_ID r = trx_ID t \<or> trx_TrxCode r = trx_TrxCode t)
                   (transactions w1)
         then (Inl StorageError, w1)
         else (Inr (),
               w1\<lparr> transactions := transactions w1 @
                     [t\<lparr> trx_SerialNumber := None, trx_SupplierMessage := None,
                         trx_SupplierTrxID := None, trx_RoutingAttempts := 0,
                         trx_FinalSupplierID := None, trx_CreatedAt := clock w1,
                         trx_UpdatedAt := clock w1, trx_ProcessedAt := None,
                         trx_CompletedAt := None \<rparr>] \<rparr>))"

definition transactionRepo_GetByID :: "string \<Rightarrow> world \<Rightarrow> (error + Transaction) \<times> world" where
  "transactionRepo_GetByID tid w =
     (let (ok, w1) = db_call w
      in if \<not> ok then (Inl StorageError, w1)
         else (case find (\<lambda>r. trx_ID r = tid) (transactions w1) of
                 None \<Rightarrow> (Inl RowNotFound, w1)
               | Some t \<Rightarrow> (Inr t, w1)))"

definition transactionRepo_Update :: "Transaction \<Rightarrow> world \<Rightarrow> (error + unit) \<times> world" where
  "transactionRepo_Update t w =
     (let (ok, w1) = db_call w
      in if \<not> ok then (Inl StorageError, w1)
         else if \<not> list_ex (\<lambda>r. trx_ID r = trx_ID t) (transactions w1)
         then (Inl RowNotFound, w1)
         else (Inr (),
               w1\<lparr> transactions :=
                     map (\<lambda>r. if trx_ID r = trx_ID t
                               then r\<lparr> trx_SupplierID := trx_SupplierID t,
                                       trx_Status := trx_Status t,
                                       trx_SerialNumber := trx_SerialNumber t,
                                       trx_SupplierMessage := trx_SupplierMessage t,
                                       trx_SupplierTrxID := trx_SupplierTrxID t,
                                       trx_RoutingAttempts := trx_RoutingAttempts t,
                                       trx_FinalSupplierID := trx_FinalSupplierID t,
                                       trx_ProcessedAt := trx_ProcessedAt t,
                                       trx_CompletedAt := trx_CompletedAt t,
                                       trx_UpdatedAt := clock w1 \<rparr>
                               else r)
                         (transactions w1) \<rparr>))"

definition transactionRepo_UpdateStatus :: "string \<Rightarrow> status \<Rightarrow> world \<Rightarrow> (error + unit) \<times> world" where
  "transactionRepo_UpdateStatus tid st w =
     (let (ok, w1) = db_call w
      in if \<not> ok then (Inl StorageError, w1)
         else if \<not> list_ex (\<lambda>r. trx_ID r = tid) (transactions w1)
         then (Inl RowNotFound, w1)
         else (Inr (),
               w1\<lparr> transactions :=
                     map (\<lambda>r. if trx_ID r = tid
                               then r\<lparr> trx_Status := st, trx_UpdatedAt := clock w1 \<rparr>
                               else r)
                         (transactions w1) \<rparr>))"

definition transactionRepo_GetByStatus :: "status \<Rightarrow> world \<Rightarrow> (error + Transaction list) \<times> world" where
  "transactionRepo_GetByStatus st w =
     (let (ok, w1) = db_call w
      in if \<not> ok then (Inl StorageError, w1)
         else (Inr (filter (\<lambda>r. trx_Status r = st) (transactions w1)), w1))"

definition userRepo_GetByID :: "string \<Rightarrow> world \<Rightarrow> (error + User) \<times> world" where
  "userRepo_GetByID tid w =
     (let (ok, w1) = db_call w
      in if \<not> ok then (Inl StorageError, w1)
         else (case find (\<lambda>r. usr_ID r = tid) (users w1) of
                 None \<Rightarrow> (Inl RowNotFound, w1)
               | Some u \<Rightarrow> (Inr u, w1)))"

definition userRepo_UpdateBalance :: "string \<Rightarrow> real \<Rightarrow> world \<Rightarrow> (error + unit) \<times> world" where
  "userRepo_UpdateBalance tid newBalance w =
     (let (ok, w1) = db_call w
      in if \<not> ok then (Inl StorageError, w1)
         else if \<not> list_ex (\<lambda>r. usr_ID r = tid) (users w1)
         then (Inl RowNotFound, w1)
         else (Inr (),
               w1\<lparr> users :=
                     map (\<lambda>r. if usr_ID r = tid then r\<lparr> usr_Balance := newBalance \<rparr> else r)
                         (users w1) \<rparr>))"

definition productRepo_GetByCode :: "string \<Rightarrow> world \<Rightarrow> (error + Product) \<times> world" where
  "productRepo_GetByCode code w =
     (let (ok, w1) = db_call w
      in if \<not> ok then (Inl StorageError, w1)
         else (case find (\<lambda>r. prd_Code r = code) (products w1) of
                 None \<Rightarrow> (Inl RowNotFound, w1)
               | Some p \<Rightarrow> (Inr p, w1)))"

definition supplierRepo_GetByID :: "string \<Rightarrow> world \<Rightarrow> (error + Supplier) \<times> world" where
  "supplierRepo_GetByID tid w =
     (let (ok, w1) = db_call w
      in if \<not> ok then (Inl StorageError, w1)
         else (case find (\<lambda>r. sup_ID r = tid) (suppliers w1) of
                 None \<Rightarrow> (Inl RowNotFound, w1)
               | Some s \<Rightarrow> (Inr s, w1)))"

text \<open>
  The check constraint of the table \<open>mutations\<close>: \<open>balance_after\<close> is \<open>balance_before\<close>
  plus the amount for a debit and minus the amount for a credit. \<open>created_at\<close> is \<open>NOW()\<close>.
\<close>

definition check_balance_after :: "Mutation \<Rightarrow> bool" where
  "check_balance_after m =
     ((mut_Type m = DEBIT \<and> mut_BalanceAfter m = mut_BalanceBefore m + mut_Amount m) \<or>
      (mut_Type m = CREDIT \<and> mut_BalanceAfter m = mut_BalanceBefore m - mut_Amount m))"

definition mutationRepo_Create :: "Mutation \<Rightarrow> world \<Rightarrow> (error + unit) \<times> world" where
  "mutationRepo_Create m w =
     (let (ok, w1) = db_call w
      in if \<not> ok then (Inl StorageError, w1)
         else if list_ex (\<lambda>r. mut_ID r = mut_ID m) (mutations w1)
                 \<or> \<not> check_balance_after m
                 \<or> \<not> list_ex (\<lambda>u. usr_ID u = mut_UserID m) (users w1)
         then (Inl StorageError, w1)
         else (Inr (), w1\<lparr> mutations := mutations w1 @ [m\<lparr> mut_CreatedAt := clock w1 \<rparr>] \<rparr>))"

text \<open>The queue is a Redis list; \<open>LPUSH\<close> adds at the head.\<close>

definition queueRepo_EnqueueTransaction :: "string \<Rightarrow> world \<Rightarrow> (error + unit) \<times> world" where
  "queueRepo_EnqueueTransaction tid w =
     (let (ok, w1) = db_call w
      in if \<not> ok then (Inl StorageError, w1)
         else (Inr (), w1\<lparr> queue := tid # queue w1 \<rparr>))"

text \<open>
  \<open>GetActiveMappings\<close>: the active mappings of the product, \<open>ORDER BY priority ASC,
  supplier_price ASC\<close>. SQL leaves the order of rows with equal keys open; here they keep
  the order of the table.
\<close>

definition productMappingRepo_GetActiveMappings :: "string \<Rightarrow> world \<Rightarrow> (error + ProductMapping list) \<times> world" where
  "productMappingRepo_GetActiveMappings productID w =
     (let (ok, w1) = db_call w
      in if \<not> ok then (Inl StorageError, w1)
         else (Inr (sort_key (\<lambda>m. (pm_Priority m, pm_SupplierPrice m))
                      (filter (\<lambda>m. pm_ProductID m = productID \<and> pm_IsActive m)
                         (product_mappings w1))), w1))"

text \<open>
  \<open>UpdateMetrics\<close> is a single \<open>UPDATE suppliers\<close>. Its arithmetic is on exact decimals;
  the cast \<open>::integer\<close> rounds to the nearest integer, halves away from zero, and storing
  into \<open>success_rate DECIMAL(5,2)\<close> rounds to two decimals the same way.
\<close>

definition pg_round :: "real \<Rightarrow> int" where
  "pg_round x = (if x \<ge> 0 then \<lfloor>x + 1/2\<rfloor> else \<lceil>x - 1/2\<rceil>)"

definition decimal_5_2 :: "real \<Rightarrow> real" where
  "decimal_5_2 x = real_of_int (pg_round (x * 100)) / 100"

definition UpdateMetrics_row :: "bool \<Rightarrow> int \<Rightarrow> int \<Rightarrow> Supplier \<Rightarrow> Supplier" where
  "UpdateMetrics_row success responseTimeMs now s =
     (let total = sup_TotalTransactions s;
          failed = sup_FailedTransactions s;
          failed' = (if success then failed else failed + 1)
      in s\<lparr> sup_TotalTransactions := total + 1,
             sup_FailedTransactions := failed',
             sup_SuccessRate :=
               decimal_5_2 (if total + 1 > 0
                            then real_of_int (total + 1 - failed') * 100 / real_of_int (total + 1)
                            else 100),
             sup_AvgResponseTimeMs :=
               (if sup_AvgResponseTimeMs s = 0 then responseTimeMs
                else pg_round (real_of_int (sup_AvgResponseTimeMs s) * 0.7
                               + real_of_int responseTimeMs * 0.3)),
             sup_LastSuccessAt := (if success then Some now else sup_LastSuccessAt s),
             sup_LastCheckedAt := Some now \<rparr>)"

definition supplierRepo_UpdateMetrics :: "string \<Rightarrow> bool \<Rightarrow> int \<Rightarrow> world \<Rightarrow> (error + unit) \<times> world" where
  "supplierRepo_UpdateMetrics tid success responseTimeMs w =
     (let (ok, w1) = db_call w
      in if \<not> ok then (Inl FailedToUpdateSupplierMetrics, w1)
         else if \<not> list_ex (\<lambda>r. sup_ID r = tid) (suppliers w1)
         then (Inl SupplierNotFound, w1)
         else (Inr (),
               w1\<lparr> suppliers :=
                     map (\<lambda>r. if sup_ID r = tid
                               then UpdateMetrics_row success responseTimeMs (clock w1) r
                               else r)
                         (suppliers w1) \<rparr>))"

section \<open>Smart routing (internal/usecase/smart_routing_uc.go)\<close>

record RoutingCriteria =
  crit_PriorityOnly :: bool
  crit_PreferCheapest :: bool
  crit_PreferFastest :: bool
  crit_PreferReliable :: bool
  crit_MaxSuppliers :: int
  crit_MinSuccessRate :: real

text \<open>The keys of the maps \<open>Breakdown\<close> and \<open>weights\<close>.\<close>

datatype factor =
  F_priority | F_success_rate | F_response_time | F_price | F_stock | F_recent_performance

definition all_factors :: "factor list" where
  "all_factors =
     [F_priority, F_success_rate, F_response_time, F_price, F_stock, F_recent_performance]"

text \<open>
  The text \<open>Reason\<close> of a score, written for the log and the result, is not modelled.
\<close>

record SupplierScore =
  sc_Supplier :: Supplier
  sc_TotalScore :: real
  sc_Confidence :: real
  sc_Breakdown :: "factor \<Rightarrow> real option"

record RoutingResult =
  res_SelectedSupplier :: Supplier
  res_SelectedMapping :: "ProductMapping option"
  res_Confidence :: real
  res_Alternatives :: "Supplier list"

definition calculateRecentPerformanceScore :: "ProductMapping \<Rightarrow> real" where
  "calculateRecentPerformanceScore mapping =
     (let totalAttempts = pm_SuccessCount mapping + pm_FailureCount mapping
      in if totalAttempts = 0 then 0.5
         else (let recentSuccessRate =
                     real_of_int (pm_SuccessCount mapping) / real_of_int totalAttempts
               in if totalAttempts \<ge> 10 \<and> recentSuccessRate \<ge> 0.95 then 1.0
                  else recentSuccessRate))"

text \<open>A missing key of a Go map reads as zero.\<close>

definition breakdown_at :: "SupplierScore \<Rightarrow> factor \<Rightarrow> real" where
  "breakdown_at score f = (case sc_Breakdown score f of None \<Rightarrow> 0 | Some v \<Rightarrow> v)"

definition calculateConfidence :: "SupplierScore \<Rightarrow> Supplier \<Rightarrow> ProductMapping \<Rightarrow> real" where
  "calculateConfidence score supplier mapping =
     (let c0 = 0.5;
          c1 = (if sup_SuccessRate supplier \<ge> 95 then c0 + 0.2
                else if sup_SuccessRate supplier \<ge> 90 then c0 + 0.1 else c0);
          c2 = (if sup_TotalTransactions supplier \<ge> 1000 then c1 + 0.2
                else if sup_TotalTransactions supplier \<ge> 100 then c1 + 0.1 else c1);
          c3 = (if breakdown_at score F_recent_performance \<ge> 0.9 then c2 + 0.1 else c2);
          c4 = (if pm_StockStatus mapping = UNKNOWN then c3 - 0.1 else c3);
          c5 = (if c4 > 1.0 then 1.0 else c4)
      in if c5 < 0.0 then 0.0 else c5)"

definition routing_weights :: "RoutingCriteria \<Rightarrow> factor \<Rightarrow> real option" where
  "routing_weights criteria =
     (if crit_PriorityOnly criteria then Map.empty(F_priority \<mapsto> 1.0)
      else (let w0 = Map.empty(F_priority \<mapsto> 0.3, F_success_rate \<mapsto> 0.3,
                       F_response_time \<mapsto> 0.2, F_price \<mapsto> 0.1, F_stock \<mapsto> 0.05,
                       F_recent_performance \<mapsto> 0.05);
                w1 = (if crit_PreferCheapest criteria
                      then w0(F_price \<mapsto> 0.3, F_priority \<mapsto> 0.2) else w0);
                w2 = (if crit_PreferFastest criteria
                      then w1(F_response_time \<mapsto> 0.4, F_priority \<mapsto> 0.2) else w1)
            in if crit_PreferReliable criteria
               then w2(F_success_rate \<mapsto> 0.5, F_priority \<mapsto> 0.2) else w2))"

text \<open>
  \<open>calculateSupplierScore\<close>. In Go \<open>1.0 / float64(supplier.Priority)\<close> is \<open>+Inf\<close> for a
  priority of zero, which the reals do not have: the model is about suppliers whose
  priority is not zero. The sum over the map \<open>Breakdown\<close> runs over the keys in any order.
\<close>

definition calculateSupplierScore :: "Supplier \<Rightarrow> ProductMapping list \<Rightarrow> RoutingCriteria \<Rightarrow> SupplierScore" where
  "calculateSupplierScore supplier mappings criteria =
     (case find (\<lambda>m. pm_SupplierID m = sup_ID supplier) mappings of
        None \<Rightarrow> \<lparr> sc_Supplier = supplier, sc_TotalScore = 0, sc_Confidence = 0,
                  sc_Breakdown = Map.empty \<rparr>
      | Some mapping \<Rightarrow>
          (let priorityScore = 1.0 / real_of_int (sup_Priority supplier);
               successRateScore = sup_SuccessRate supplier / 100.0;
               responseTimeScore =
                 (if sup_AvgResponseTimeMs supplier > 0
                  then 10000.0 / real_of_int (sup_AvgResponseTimeMs supplier) else 1.0);
               priceScore =
                 (if crit_PreferCheapest criteria \<and> pm_SupplierPrice mapping > 0
                  then foldl (\<lambda>minPrice m.
                                if pm_SupplierPrice m < minPrice \<and> pm_IsActive m
                                then pm_SupplierPrice m else minPrice)
                         (pm_SupplierPrice mapping) mappings
                       / pm_SupplierPrice mapping
                  else 1.0);
               stockScore =
                 (if pm_StockStatus mapping = OUT_OF_STOCK then 0.0
                  else if pm_StockStatus mapping = UNKNOWN then 0.5 else 1.0);
               recentPerformanceScore = calculateRecentPerformanceScore mapping;
               breakdown = Map.empty(F_priority \<mapsto> priorityScore,
                             F_success_rate \<mapsto> successRateScore,
                             F_response_time \<mapsto> responseTimeScore,
                             F_price \<mapsto> priceScore, F_stock \<mapsto> stockScore,
                             F_recent_performance \<mapsto> recentPerformanceScore);
               weights = routing_weights criteria;
               totalScore =
                 sum_list (map (\<lambda>f. case (breakdown f, weights f) of
                                        (Some factorScore, Some weight) \<Rightarrow> factorScore * weight
                                      | _ \<Rightarrow> 0)
                             all_factors);
               score = \<lparr> sc_Supplier = supplier, sc_TotalScore = totalScore,
                         sc_Confidence = 0, sc_Breakdown = breakdown \<rparr>
           in score\<lparr> sc_Confidence := calculateConfidence score supplier mapping \<rparr>))"

text \<open>
  \<open>sort.Slice\<close> of the Go library sorts a slice of at most 12 elements by insertion: each
  element in turn is swapped to the left as long as it is \<open>less\<close> than its left
  neighbour. \<open>insert_left\<close> works on the sorted prefix in reverse, nearest neighbour first.
\<close>

fun insert_left :: "('a \<Rightarrow> 'a \<Rightarrow> bool) \<Rightarrow> 'a \<Rightarrow> 'a list \<Rightarrow> 'a list" where
  "insert_left lt x [] = [x]"
| "insert_left lt x (y # ys) =
     (if lt x y then y # insert_left lt x ys else x # y # ys)"

definition sort_Slice :: "('a \<Rightarrow> 'a \<Rightarrow> bool) \<Rightarrow> 'a list \<Rightarrow> 'a list" where
  "sort_Slice lt xs = rev (foldl (\<lambda>acc x. insert_left lt x acc) [] xs)"

text \<open>The loop of \<open>GetBestSupplier\<close> that fetches the supplier of each mapping.\<close>

fun healthySuppliers :: "ProductMapping list \<Rightarrow> world \<Rightarrow> Supplier list \<times> world" where
  "healthySuppliers [] w = ([], w)"
| "healthySuppliers (mapping # rest) w =
     (case supplierRepo_GetByID (pm_SupplierID mapping) w of
        (Inl err, w1) \<Rightarrow> healthySuppliers rest w1
      | (Inr supplier, w1) \<Rightarrow>
          if \<not> IsHealthy supplier then healthySuppliers rest w1
          else (let (more, w2) = healthySuppliers rest w1 in (supplier # more, w2)))"

definition defaultCriteria :: RoutingCriteria where
  "defaultCriteria =
     \<lparr> crit_PriorityOnly = False, crit_PreferCheapest = True, crit_PreferFastest = False,
       crit_PreferReliable = True, crit_MaxSuppliers = 5, crit_MinSuccessRate = 50.0 \<rparr>"

text \<open>The scores of \<open>GetBestSupplier\<close> after sorting: the ranked list of candidates.\<close>

definition rankedScores :: "Supplier list \<Rightarrow> ProductMapping list \<Rightarrow> RoutingCriteria \<Rightarrow> SupplierScore list" where
  "rankedScores sups mappings criteria =
     sort_Slice (\<lambda>a b. sc_TotalScore a > sc_TotalScore b)
       (map (\<lambda>supplier. calculateSupplierScore supplier mappings criteria) sups)"

definition GetBestSupplier :: "string \<Rightarrow> RoutingCriteria option \<Rightarrow> world \<Rightarrow> (error + RoutingResult) \<times> world" where
  "GetBestSupplier productID criteria_opt w =
     (case productMappingRepo_GetActiveMappings productID w of
        (Inl err, w1) \<Rightarrow> (Inl FailedToGetProductMappings, w1)
      | (Inr mappings, w1) \<Rightarrow>
          if mappings = [] then (Inl NoActiveMappingsFound, w1)
          else (let (sups, w2) = healthySuppliers mappings w1
                in if sups = [] then (Inl NoHealthySuppliersAvailable, w2)
                   else (let criteria = (case criteria_opt of
                                           None \<Rightarrow> defaultCriteria | Some c \<Rightarrow> c);
                             scores = rankedScores sups mappings criteria;
                             bestScore = hd scores;
                             bestSupplier = sc_Supplier bestScore;
                             bestMapping =
                               find (\<lambda>m. pm_SupplierID m = sup_ID bestSupplier) mappings;
                             alternatives =
                               map sc_Supplier
                                 (drop 1 (take (nat (crit_MaxSuppliers criteria - 1)) scores))
                         in (Inr \<lparr> res_SelectedSupplier = bestSupplier,
                                   res_SelectedMapping = bestMapping,
                                   res_Confidence = sc_Confidence bestScore,
                                   res_Alternatives = alternatives \<rparr>, w2))))"

definition UpdateSupplierMetrics :: "string \<Rightarrow> bool \<Rightarrow> int \<Rightarrow> world \<Rightarrow> (error + unit) \<times> world" where
  "UpdateSupplierMetrics supplierID success responseTimeMs w =
     supplierRepo_UpdateMetrics supplierID success responseTimeMs w"

section \<open>Retry controller (retryUsecase)\<close>

record RetryConfig =
  cfg_MaxAttempts :: int
  cfg_InitialDelay :: int
  cfg_MaxDelay :: int
  cfg_BackoffMultiplier :: real
  cfg_TimeoutPerAttempt :: int
  cfg_EnableJitter :: bool

definition Millisecond :: int where
  "Millisecond = 1000000"

definition Second :: int where
  "Second = 1000000000"

definition Hour :: int where
  "Hour = 3600 * 1000000000"

definition DefaultRetryConfig :: RetryConfig where
  "DefaultRetryConfig =
     \<lparr> cfg_MaxAttempts = 3, cfg_InitialDelay = 2 * Second, cfg_MaxDelay = 30 * Second,
       cfg_BackoffMultiplier = 2.0, cfg_TimeoutPerAttempt = 30 * Second,
       cfg_EnableJitter = True \<rparr>"

record RetryAttempt =
  att_AttemptNumber :: int
  att_SupplierID :: string
  att_SupplierCode :: string
  att_StartTime :: int
  att_EndTime :: int
  att_Duration :: int
  att_Success :: bool
  att_Error :: "error option"
  att_ResponseTimeMs :: int

record RetryResult =
  rr_Success :: bool
  rr_AttemptsMade :: int
  rr_TotalDuration :: int
  rr_FinalSupplierID :: string
  rr_FinalError :: "error option"
  rr_AttemptHistory :: "RetryAttempt list"
  rr_RefundIssued :: bool
  rr_RefundAmount :: real

text \<open>\<open>Duration.Milliseconds\<close>: integer division, towards zero.\<close>

definition Milliseconds :: "int \<Rightarrow> int" where
  "Milliseconds d = (if d \<ge> 0 then d div 1000000 else - ((- d) div 1000000))"

fun itoa_nat :: "nat \<Rightarrow> string" where
  "itoa_nat n =
     (if n < 10 then [char_of (48 + n)]
      else itoa_nat (n div 10) @ [char_of (48 + n mod 10)])"

declare itoa_nat.simps [simp del]

definition itoa :: "int \<Rightarrow> string" where
  "itoa i = (if i < 0 then CHR ''-'' # itoa_nat (nat (- i)) else itoa_nat (nat i))"

definition canRetryTransaction :: "Transaction \<Rightarrow> RetryConfig \<Rightarrow> world \<Rightarrow> bool" where
  "canRetryTransaction transaction config w =
     (if trx_Status transaction \<noteq> FAILED \<and> trx_Status transaction \<noteq> TIMEOUT then False
      else if trx_RoutingAttempts transaction \<ge> cfg_MaxAttempts config then False
      else if clock w - trx_CreatedAt transaction > 24 * Hour then False
      else True)"

definition getFailoverSuppliers :: "string \<Rightarrow> int \<Rightarrow> world \<Rightarrow> (error + Supplier list) \<times> world" where
  "getFailoverSuppliers productID maxCount w =
     (case GetBestSupplier productID
             (Some \<lparr> crit_PriorityOnly = False, crit_PreferCheapest = False,
                     crit_PreferFastest = False, crit_PreferReliable = True,
                     crit_MaxSuppliers = maxCount, crit_MinSuccessRate = 50.0 \<rparr>) w of
        (Inl err, w1) \<Rightarrow> (Inl err, w1)
      | (Inr result, w1) \<Rightarrow>
          (Inr (res_SelectedSupplier result # res_Alternatives result), w1))"

text \<open>
  \<open>simulateSupplierCall\<close> stands in for the supplier: it draws two random characters, one
  for the delay and one for the outcome.
\<close>

definition simulateSupplierCall :: "Supplier \<Rightarrow> Transaction \<Rightarrow> int \<Rightarrow> world \<Rightarrow> (bool \<times> int \<times> error option) \<times> world" where
  "simulateSupplierCall supplier transaction timeout w =
     (let d0 = sup_AvgResponseTimeMs supplier * Millisecond;
          d1 = (if d0 = 0 then 2 * Second else d0);
          (b1, w1) = random_byte w;
          delay = d1 + int b1 * 100 * Millisecond
      in if delay > timeout
         then ((False, Milliseconds timeout, Some SupplierCallTimeout), w1)
         else (let w2 = Sleep delay w1;
                   successChance = sup_SuccessRate supplier / 100.0;
                   (b2, w3) = random_byte w2;
                   random = real b2 / 255.0
               in if random < successChance
                  then ((True, Milliseconds delay, None), w3)
                  else ((False, Milliseconds delay, Some SupplierCallError), w3)))"

definition error_text :: "error option \<Rightarrow> string" where
  "error_text e =
     (case e of
        None \<Rightarrow> ''<nil>''
      | Some SupplierCallTimeout \<Rightarrow> ''timeout''
      | Some SupplierCallError \<Rightarrow> ''supplier error''
      | Some _ \<Rightarrow> ''error'')"

definition executeRetryAttempt :: "Transaction \<Rightarrow> Supplier \<Rightarrow> int \<Rightarrow> RetryConfig \<Rightarrow> world \<Rightarrow> RetryAttempt \<times> Transaction \<times> world" where
  "executeRetryAttempt transaction supplier attemptNumber config w =
     (let startTime = clock w;
          attempt = \<lparr> att_AttemptNumber = attemptNumber, att_SupplierID = sup_ID supplier,
                      att_SupplierCode = sup_Code supplier, att_StartTime = startTime,
                      att_EndTime = 0, att_Duration = 0, att_Success = False,
                      att_Error = None, att_ResponseTimeMs = 0 \<rparr>;
          trx1 = transaction\<lparr> trx_SupplierID := Some (sup_ID supplier),
                               trx_Status := PROCESSING,
                               trx_ProcessedAt := Some (clock w) \<rparr>
      in case transactionRepo_Update trx1 w of
           (Inl err, w1) \<Rightarrow>
             (attempt\<lparr> att_Error := Some FailedToUpdateTransaction, att_EndTime := clock w1,
                       att_Duration := clock w1 - startTime \<rparr>, trx1, w1)
         | (Inr u, w1) \<Rightarrow>
             (let ((success, responseTimeMs, err), w2) =
                    simulateSupplierCall supplier trx1 (cfg_TimeoutPerAttempt config) w1;
                  attempt1 = attempt\<lparr> att_EndTime := clock w2,
                                      att_Duration := clock w2 - startTime,
                                      att_ResponseTimeMs := responseTimeMs,
                                      att_Success := success, att_Error := err \<rparr>
              in if success
                 then (let (serialNumber, w3) = GenerateRandomString 12 w2;
                           trx2 = trx1\<lparr> trx_Status := SUCCESS,
                                        trx_SerialNumber := Some serialNumber,
                                        trx_SupplierMessage :=
                                          Some ''Transaction successful via retry'',
                                        trx_FinalSupplierID := Some (sup_ID supplier),
                                        trx_CompletedAt := Some (clock w3) \<rparr>;
                           (r1, w4) = transactionRepo_Update trx2 w3;
                           (r2, w5) = UpdateSupplierMetrics (sup_ID supplier) True
                                        responseTimeMs w4
                       in (attempt1, trx2, w5))
                 else (let msg = ''Retry attempt '' @ itoa attemptNumber @ '' failed: ''
                                   @ error_text err;
                           trx2 = trx1\<lparr> trx_Status := FAILED,
                                        trx_SupplierMessage := Some msg,
                                        trx_CompletedAt := Some (clock w2) \<rparr>;
                           (r1, w3) = transactionRepo_Update trx2 w2
                       in (attempt1, trx2, w3))))"

text \<open>
  \<open>calculateRetryDelay\<close>. \<open>1 << (attempt - 1)\<close> is a shift of a 64-bit \<open>int\<close>. The
  product is computed in \<open>float64\<close> and converted to a \<open>time.Duration\<close>.
\<close>

definition calculateRetryDelay :: "int \<Rightarrow> RetryConfig \<Rightarrow> world \<Rightarrow> int \<times> world" where
  "calculateRetryDelay attempt config w =
     (let multiplier = sint (push_bit (nat (attempt - 1)) (1 :: 64 word));
          d0 = trunc (real_of_int (cfg_InitialDelay config) * real_of_int multiplier
                      * cfg_BackoffMultiplier config);
          delay = (if d0 > cfg_MaxDelay config then cfg_MaxDelay config else d0)
      in if cfg_EnableJitter config
         then (let (b, w1) = random_byte w;
                   jitter = trunc (real_of_int delay * 0.1 * (real b / 255.0))
               in (delay + jitter, w1))
         else (delay, w))"

definition issueRefund :: "Transaction \<Rightarrow> world \<Rightarrow> (error + unit) \<times> Transaction \<times> world" where
  "issueRefund transaction w =
     (let trx1 = transaction\<lparr> trx_Status := REFUND,
                               trx_SupplierMessage := Some ''Auto refund after retry failure'',
                               trx_CompletedAt := Some (clock w) \<rparr>
      in case transactionRepo_Update trx1 w of
           (Inl err, w1) \<Rightarrow> (Inl FailedToUpdateTransactionForRefund, trx1, w1)
         | (Inr u, w1) \<Rightarrow> (Inr (), trx1, w1))"

text \<open>
  The attempt loop of \<open>RetryTransaction\<close>, from attempt number \<open>attempt\<close> on; the list is
  the part of \<open>suppliers\<close> from index \<open>attempt - 1\<close>. The first component of the result
  says whether the loop was left by the \<open>return\<close> after a successful attempt.
\<close>

fun retryLoop :: "int \<Rightarrow> Supplier list \<Rightarrow> RetryConfig \<Rightarrow> int \<Rightarrow> Transaction \<Rightarrow> RetryResult \<Rightarrow> world \<Rightarrow> bool \<times> RetryResult \<times> Transaction \<times> world" where
  "retryLoop attempt [] config startTime transaction result w =
     (False, result, transaction, w)"
| "retryLoop attempt (supplier # rest) config startTime transaction result w =
     (if \<not> attempt \<le> cfg_MaxAttempts config then (False, result, transaction, w)
      else (let (attemptResult, trx1, w1) =
                  executeRetryAttempt transaction supplier attempt config w;
                result1 = result\<lparr> rr_AttemptHistory :=
                                     rr_AttemptHistory result @ [attemptResult],
                                   rr_AttemptsMade := attempt \<rparr>;
                trx2 = trx1\<lparr> trx_RoutingAttempts := attempt \<rparr>;
                (r, w2) = transactionRepo_Update trx2 w1
            in if att_Success attemptResult
               then (True, result1\<lparr> rr_Success := True,
                                    rr_FinalSupplierID := sup_ID supplier,
                                    rr_TotalDuration := clock w2 - startTime \<rparr>, trx2, w2)
               else (let (r3, w3) = UpdateSupplierMetrics (sup_ID supplier) False
                                      (Milliseconds (att_Duration attemptResult)) w2;
                         w4 = (if attempt < cfg_MaxAttempts config
                               then (let (delay, w') = calculateRetryDelay attempt config w3
                                     in Sleep delay w')
                               else w3)
                     in retryLoop (attempt + 1) rest config startTime trx2 result1 w4)))"

definition emptyRetryResult :: RetryResult where
  "emptyRetryResult =
     \<lparr> rr_Success = False, rr_AttemptsMade = 0, rr_TotalDuration = 0,
       rr_FinalSupplierID = [], rr_FinalError = None, rr_AttemptHistory = [],
       rr_RefundIssued = False, rr_RefundAmount = 0 \<rparr>"

definition RetryTransaction :: "string \<Rightarrow> RetryConfig option \<Rightarrow> world \<Rightarrow> (error + RetryResult) \<times> world" where
  "RetryTransaction transactionID config_opt w =
     (let config = (case config_opt of None \<Rightarrow> DefaultRetryConfig | Some c \<Rightarrow> c)
      in case transactionRepo_GetByID transactionID w of
           (Inl err, w1) \<Rightarrow> (Inl TransactionNotFound, w1)
         | (Inr transaction, w1) \<Rightarrow>
             if \<not> canRetryTransaction transaction config w1
             then (Inr (emptyRetryResult\<lparr>
                          rr_AttemptsMade := trx_RoutingAttempts transaction,
                          rr_FinalError := Some TransactionCannotBeRetriedByController,
                          rr_RefundIssued := (trx_Status transaction = REFUND) \<rparr>), w1)
             else (let startTime = clock w1;
                       result = emptyRetryResult\<lparr>
                                  rr_RefundAmount := trx_SellingPrice transaction \<rparr>
                   in case getFailoverSuppliers (trx_ProductID transaction)
                             (cfg_MaxAttempts config) w1 of
                        (Inl err, w2) \<Rightarrow>
                          (Inr (result\<lparr> rr_FinalError := Some FailedToGetSuppliers \<rparr>), w2)
                      | (Inr sups, w2) \<Rightarrow>
                          if sups = []
                          then (Inr (result\<lparr> rr_FinalError :=
                                                Some NoSuppliersAvailableForRetry \<rparr>), w2)
                          else (case retryLoop 1 sups config startTime transaction result w2 of
                                  (True, result1, trx1, w3) \<Rightarrow> (Inr result1, w3)
                                | (False, result1, trx1, w3) \<Rightarrow>
                                    (let result2 = result1\<lparr>
                                           rr_TotalDuration := clock w3 - startTime,
                                           rr_FinalError := Some AllRetryAttemptsFailed \<rparr>
                                     in case issueRefund trx1 w3 of
                                          (Inl err, trx2, w4) \<Rightarrow> (Inr result2, w4)
                                        | (Inr u, trx2, w4) \<Rightarrow>
                                            (Inr (result2\<lparr> rr_RefundIssued := True \<rparr>),
                                             w4)))))"

section \<open>Supplier adapter registry (internal/adapter/factory)\<close>

text \<open>Supplier codes are ASCII; \<open>strings.ToUpper\<close> and \<open>strings.TrimSpace\<close> on ASCII.\<close>

definition toUpperChar :: "char \<Rightarrow> char" where
  "toUpperChar c =
     (if 97 \<le> (of_char c :: nat) \<and> (of_char c :: nat) \<le> 122
      then char_of ((of_char c :: nat) - 32) else c)"

definition isSpaceChar :: "char \<Rightarrow> bool" where
  "isSpaceChar c = ((of_char c :: nat) = 32 \<or> (9 \<le> (of_char c :: nat) \<and> (of_char c :: nat) \<le> 13))"

definition TrimSpace :: "string \<Rightarrow> string" where
  "TrimSpace s = rev (dropWhile isSpaceChar (rev (dropWhile isSpaceChar s)))"

definition GetAdapter :: "string \<Rightarrow> world \<Rightarrow> error + TopUpOutcome" where
  "GetAdapter code w =
     (let normalized = map toUpperChar (TrimSpace code)
      in if normalized = [] then Inl AdapterNotFound
         else (case map_of (adapters w) normalized of
                 None \<Rightarrow> Inl AdapterNotFound
               | Some adapter \<Rightarrow> Inr adapter))"

section \<open>Transaction use case (transactionUsecase)\<close>

definition createBalanceMutation :: "string \<Rightarrow> mutation_type \<Rightarrow> real \<Rightarrow> real \<Rightarrow> real \<Rightarrow> string \<Rightarrow> string option \<Rightarrow> string option \<Rightarrow> world \<Rightarrow> (error + unit) \<times> world" where
  "createBalanceMutation userID mutationType amount balanceBefore balanceAfter description
       referenceType referenceID w =
     (if \<not> has_mutationRepo w then (Inl MutationRepositoryNotConfigured, w)
      else (let (uuid, w1) = GenerateUUID w;
                mutation = \<lparr> mut_ID = uuid, mut_UserID = userID, mut_Type = mutationType,
                             mut_Amount = amount, mut_BalanceBefore = balanceBefore,
                             mut_BalanceAfter = balanceAfter, mut_ReferenceType = referenceType,
                             mut_ReferenceID = referenceID, mut_Description = description,
                             mut_CreatedAt = clock w1 \<rparr>
            in case mutationRepo_Create mutation w1 of
                 (Inl err, w2) \<Rightarrow> (Inl FailedToCreateMutation, w2)
               | (Inr u, w2) \<Rightarrow> (Inr (), w2)))"

definition refundTransaction :: "Transaction \<Rightarrow> world \<Rightarrow> (error + unit) \<times> world" where
  "refundTransaction transaction w =
     (case userRepo_GetByID (trx_UserID transaction) w of
        (Inl err, w1) \<Rightarrow> (Inl FailedToGetUserForRefund, w1)
      | (Inr user, w1) \<Rightarrow>
          (case createBalanceMutation (usr_ID user) DEBIT (trx_SellingPrice transaction)
                  (usr_Balance user) (usr_Balance user + trx_SellingPrice transaction)
                  (''Refund transaksi gagal '' @ trx_TrxCode transaction)
                  (Some ReferenceTypeTransaction) (Some (trx_ID transaction)) w1 of
             (Inl err, w2) \<Rightarrow> (Inl FailedToCreateRefundMutation, w2)
           | (Inr u, w2) \<Rightarrow>
               (let newBalance = usr_Balance user + trx_SellingPrice transaction;
                    (r1, w3) = userRepo_UpdateBalance (usr_ID user) newBalance w2;
                    trx1 = transaction\<lparr> trx_Status := REFUND,
                             trx_SupplierMessage := Some ''Transaction refunded due to failure'',
                             trx_CompletedAt := Some (clock w3) \<rparr>;
                    (r2, w4) = transactionRepo_Update trx1 w3
                in (Inr (), w4))))"

definition handleSupplierFailure :: "Transaction \<Rightarrow> string \<Rightarrow> world \<Rightarrow> (error + unit) \<times> world" where
  "handleSupplierFailure transaction reason w =
     (let trx1 = transaction\<lparr> trx_Status := FAILED, trx_SupplierMessage := Some reason,
                               trx_CompletedAt := Some (clock w) \<rparr>;
          (r1, w1) = transactionRepo_Update trx1 w;
          (settled, w2) =
            (if has_retryUC w1
             then (case RetryTransaction (trx_ID trx1) None w1 of
                     (Inr result, w') \<Rightarrow>
                       (rr_Success result \<or> rr_RefundIssued result, w')
                   | (Inl err, w') \<Rightarrow> (False, w'))
             else (False, w1))
      in if settled then (Inr (), w2)
         else (case refundTransaction trx1 w2 of
                 (Inl err, w3) \<Rightarrow> (Inl FailedToRefundAfterSupplierFailure, w3)
               | (Inr u, w3) \<Rightarrow> (Inl (SupplierFailure reason), w3)))"

definition selectSupplier :: "Transaction \<Rightarrow> world \<Rightarrow> (error + Supplier \<times> ProductMapping) \<times> world" where
  "selectSupplier transaction w =
     (if \<not> has_smartRoutingUC w then (Inl SmartRoutingNotConfigured, w)
      else (case GetBestSupplier (trx_ProductID transaction) None w of
              (Inl err, w1) \<Rightarrow> (Inl err, w1)
            | (Inr result, w1) \<Rightarrow>
                (case res_SelectedMapping result of
                   None \<Rightarrow> (Inl NoSupplierAvailable, w1)
                 | Some mapping \<Rightarrow> (Inr (res_SelectedSupplier result, mapping), w1))))"

text \<open>
  \<open>executeSupplierTransaction\<close>. The call of the adapter takes \<open>out_Elapsed\<close> on the clock.
  A nil response without an error is dereferenced by \<open>response.Success\<close>.
\<close>

definition executeSupplierTransaction :: "Transaction \<Rightarrow> Supplier \<Rightarrow> ProductMapping \<Rightarrow> world \<Rightarrow> (error + unit) \<times> world" where
  "executeSupplierTransaction transaction supplier mapping w =
     (if \<not> has_adapterFactory w
      then handleSupplierFailure transaction ''supplier adapter factory not configured'' w
      else (case GetAdapter (sup_Code supplier) w of
              Inl err \<Rightarrow>
                handleSupplierFailure transaction
                  (''adapter for '' @ sup_Code supplier @ '' not found'') w
            | Inr outcome \<Rightarrow>
                (let w1 = w\<lparr> clock := clock w + max (out_Elapsed outcome) 0 \<rparr>;
                     duration = clock w1 - clock w;
                     response = out_Response outcome;
                     success = (out_Err outcome = None \<and>
                                (case response of None \<Rightarrow> False | Some r \<Rightarrow> rsp_Success r));
                     responseTime =
                       (case response of
                          None \<Rightarrow> Milliseconds duration
                        | Some r \<Rightarrow> if rsp_ResponseTime r > 0 then rsp_ResponseTime r
                                    else Milliseconds duration);
                     w2 = (if has_smartRoutingUC w1
                           then snd (UpdateSupplierMetrics (sup_ID supplier) success
                                       responseTime w1)
                           else w1)
                 in case out_Err outcome of
                      Some e \<Rightarrow> handleSupplierFailure transaction (''supplier error: '' @ e) w2
                    | None \<Rightarrow>
                        (case response of
                           None \<Rightarrow> (Inl NilPointerDereference, w2)
                         | Some r \<Rightarrow>
                             if \<not> rsp_Success r
                             then handleSupplierFailure transaction
                                    (if rsp_Message r = [] then ''supplier returned failure''
                                     else rsp_Message r) w2
                             else (let serial = (if rsp_SerialNumber r = [] then rsp_TrxID r
                                                 else rsp_SerialNumber r);
                                       trx1 = (if serial \<noteq> []
                                               then transaction\<lparr> trx_SerialNumber := Some serial \<rparr>
                                               else transaction);
                                       trx2 = (if rsp_Message r \<noteq> []
                                               then trx1\<lparr> trx_SupplierMessage :=
                                                             Some (rsp_Message r) \<rparr>
                                               else trx1);
                                       trx3 = (if rsp_TrxID r \<noteq> []
                                               then trx2\<lparr> trx_SupplierTrxID :=
                                                             Some (rsp_TrxID r) \<rparr>
                                               else trx2);
                                       trx4 = trx3\<lparr> trx_Status := SUCCESS,
                                                trx_FinalSupplierID := Some (sup_ID supplier),
                                                trx_CompletedAt := Some (clock w2) \<rparr>
                                   in case transactionRepo_Update trx4 w2 of
                                        (Inl err, w3) \<Rightarrow>
                                          (Inl FailedToUpdateSuccessfulTransaction, w3)
                                      | (Inr u, w3) \<Rightarrow> (Inr (), w3))))))"

definition CreateTransaction :: "string \<Rightarrow> string \<Rightarrow> string \<Rightarrow> world \<Rightarrow> (error + Transaction) \<times> world" where
  "CreateTransaction userID productCode destinationNumber w =
     (if userID = [] \<or> productCode = [] \<or> destinationNumber = []
      then (Inl MissingRequiredFields, w)
      else if \<not> ValidatePhoneNumber destinationNumber
      then (Inl InvalidPhoneNumberFormat, w)
      else (case userRepo_GetByID userID w of
              (Inl err, w1) \<Rightarrow> (Inl UserNotFound, w1)
            | (Inr user, w1) \<Rightarrow>
                if \<not> usr_IsActive user then (Inl UserNotActive, w1)
                else (case productRepo_GetByCode productCode w1 of
                        (Inl err, w2) \<Rightarrow> (Inl ProductNotFound, w2)
                      | (Inr product, w2) \<Rightarrow>
                          if \<not> prd_IsActive product then (Inl ProductNotAvailable, w2)
                          else (let basePrice = prd_BasePrice product;
                                    sellingPrice = GetEffectivePrice user basePrice
                                in if sellingPrice < prd_MinPrice product
                                      \<or> sellingPrice > prd_MaxTransactionAmount product
                                   then (Inl PriceOutOfRange, w2)
                                   else if \<not> HasSufficientBalance user sellingPrice
                                   then (Inl InsufficientBalance, w2)
                                   else (let (uuid, w3) = GenerateUUID w2;
                                             (code, w4) = GenerateTrxCode w3;
                                             transaction =
                                               \<lparr> trx_ID = uuid, trx_TrxCode = code,
                                                 trx_UserID = userID,
                                                 trx_ProductID = prd_ID product,
                                                 trx_SupplierID = None,
                                                 trx_DestinationNumber =
                                                   ParsePhoneNumber destinationNumber,
                                                 trx_ProductCode = productCode,
                                                 trx_HPP = basePrice,
                                                 trx_SellingPrice = sellingPrice,
                                                 trx_AdminFee = 0, trx_Status = PENDING,
                                                 trx_SerialNumber = None,
                                                 trx_SupplierMessage = None,
                                                 trx_SupplierTrxID = None,
                                                 trx_RoutingAttempts = 0,
                                                 trx_FinalSupplierID = None,
                                                 trx_CreatedAt = clock w4,
                                                 trx_UpdatedAt = clock w4,
                                                 trx_ProcessedAt = None,
                                                 trx_CompletedAt = None \<rparr>
                                         in case transactionRepo_Create transaction w4 of
                                              (Inl err, w5) \<Rightarrow>
                                                (Inl FailedToCreateTransaction, w5)
                                            | (Inr u, w5) \<Rightarrow>
                                                (Inr transaction,
                                                 if has_queueRepo w5
                                                 then snd (queueRepo_EnqueueTransaction
                                                             (trx_ID transaction) w5)
                                                 else w5))))))"

definition ProcessTransaction :: "string \<Rightarrow> world \<Rightarrow> (error + unit) \<times> world" where
  "ProcessTransaction transactionID w =
     (case transactionRepo_GetByID transactionID w of
        (Inl err, w1) \<Rightarrow> (Inl TransactionNotFound, w1)
      | (Inr transaction0, w1) \<Rightarrow>
          if trx_Status transaction0 \<noteq> PENDING then (Inl TransactionNotPending, w1)
          else (let transaction = transaction0\<lparr> trx_ProcessedAt := Some (clock w1) \<rparr>
                in case transactionRepo_UpdateStatus transactionID PROCESSING w1 of
                     (Inl err, w2) \<Rightarrow> (Inl FailedToUpdateProcessingStatus, w2)
                   | (Inr u, w2) \<Rightarrow>
                       (case userRepo_GetByID (trx_UserID transaction) w2 of
                          (Inl err, w3) \<Rightarrow> (Inl FailedToGetUser, w3)
                        | (Inr user, w3) \<Rightarrow>
                            if \<not> HasSufficientBalance user (trx_SellingPrice transaction)
                            then (let trx1 = transaction\<lparr> trx_Status := FAILED,
                                               trx_SupplierMessage :=
                                                 Some ''Insufficient balance'' \<rparr>;
                                      (r, w4) = transactionRepo_Update trx1 w3
                                  in (Inl InsufficientBalance, w4))
                            else (case selectSupplier transaction w3 of
                                    (Inl err, w4) \<Rightarrow>
                                      handleSupplierFailure transaction ''routing error'' w4
                                  | (Inr (selectedSupplier, selectedMapping), w4) \<Rightarrow>
                                      (let trx1 = transaction\<lparr> trx_SupplierID :=
                                                    Some (sup_ID selectedSupplier) \<rparr>
                                       in case createBalanceMutation (usr_ID user) CREDIT
                                                 (trx_SellingPrice trx1) (usr_Balance user)
                                                 (usr_Balance user - trx_SellingPrice trx1)
                                                 (''Pembelian '' @ trx_ProductCode trx1 @ '' ''
                                                    @ trx_DestinationNumber trx1)
                                                 (Some ReferenceTypeTransaction)
                                                 (Some (trx_ID trx1)) w4 of
                                            (Inl err, w5) \<Rightarrow>
                                              (Inl FailedToCreateBalanceMutation, w5)
                                          | (Inr u, w5) \<Rightarrow>
                                              (let newBalance = usr_Balance user
                                                                 - trx_SellingPrice trx1;
                                                   (r, w6) = userRepo_UpdateBalance
                                                               (usr_ID user) newBalance w5
                                               in executeSupplierTransaction trx1
                                                    selectedSupplier selectedMapping w6))))))"

definition RetryFailedTransaction :: "string \<Rightarrow> world \<Rightarrow> (error + unit) \<times> world" where
  "RetryFailedTransaction transactionID w =
     (case transactionRepo_GetByID transactionID w of
        (Inl err, w1) \<Rightarrow> (Inl TransactionNotFound, w1)
      | (Inr transaction, w1) \<Rightarrow>
          if \<not> CanRetry transaction then (Inl TransactionCannotBeRetried, w1)
          else (let trx1 = transaction\<lparr> trx_RoutingAttempts :=
                                           trx_RoutingAttempts transaction + 1 \<rparr>
                in case transactionRepo_Update trx1 w1 of
                     (Inl err, w2) \<Rightarrow> (Inl FailedToIncrementRoutingAttempts, w2)
                   | (Inr u, w2) \<Rightarrow>
                       (case transactionRepo_UpdateStatus transactionID PENDING w2 of
                          (Inl err, w3) \<Rightarrow> (Inl FailedToResetTransactionStatus, w3)
                        | (Inr u, w3) \<Rightarrow> ProcessTransaction transactionID w3)))"


definition RefundTransaction :: "string \<Rightarrow> world \<Rightarrow> (error + unit) \<times> world" where
  "RefundTransaction transactionID w =
     (case transactionRepo_GetByID transactionID w of
        (Inl err, w1) \<Rightarrow> (Inl TransactionNotFound, w1)
      | (Inr transaction, w1) \<Rightarrow> refundTransaction transaction w1)"

section \<open>Example states\<close>

text \<open>
  A user, the product \<open>T10\<close>, suppliers with a mapping each and one transaction, used to
  run the operations on concrete inputs.
\<close>

definition ex_supplier :: "string \<Rightarrow> string \<Rightarrow> int \<Rightarrow> int \<Rightarrow> Supplier" where
  "ex_supplier sid code prio avg =
     \<lparr> sup_ID = sid, sup_Code = code, sup_IsActive = True, sup_Priority = prio,
       sup_Balance = 1000000, sup_MinBalanceThreshold = 0, sup_SuccessRate = 90,
       sup_AvgResponseTimeMs = avg, sup_TotalTransactions = 1000,
       sup_FailedTransactions = 100, sup_LastCheckedAt = None, sup_LastSuccessAt = None \<rparr>"

definition ex_mapping :: "string \<Rightarrow> string \<Rightarrow> int \<Rightarrow> ProductMapping" where
  "ex_mapping mid sid prio =
     \<lparr> pm_ID = mid, pm_ProductID = ''p1'', pm_SupplierID = sid,
       pm_SupplierProductCode = ''X10'', pm_SupplierPrice = 9800, pm_Priority = prio,
       pm_IsActive = True, pm_StockStatus = AVAILABLE, pm_SuccessCount = 0,
       pm_FailureCount = 0 \<rparr>"

definition ex_trx :: "status \<Rightarrow> int \<Rightarrow> string option \<Rightarrow> Transaction" where
  "ex_trx st n sid =
     \<lparr> trx_ID = ''t1'', trx_TrxCode = ''TRX-20240101-0001'', trx_UserID = ''u1'',
       trx_ProductID = ''p1'', trx_SupplierID = sid,
       trx_DestinationNumber = ''628123456789'', trx_ProductCode = ''T10'',
       trx_HPP = 9800, trx_SellingPrice = 10000, trx_AdminFee = 0, trx_Status = st,
       trx_SerialNumber = None, trx_SupplierMessage = None, trx_SupplierTrxID = None,
       trx_RoutingAttempts = n, trx_FinalSupplierID = None, trx_CreatedAt = 0,
       trx_UpdatedAt = 0, trx_ProcessedAt = None, trx_CompletedAt = None \<rparr>"

definition ex_user :: "real \<Rightarrow> User" where
  "ex_user balance =
     \<lparr> usr_ID = ''u1'', usr_Level = 1, usr_IsActive = True, usr_Balance = balance,
       usr_CreditLimit = 0, usr_MarkupPercentage = 0, usr_AllowDebt = False \<rparr>"

text \<open>The adapter of supplier \<open>S1\<close> answers every request with a refusal.\<close>

definition ex_refusal :: TopUpOutcome where
  "ex_refusal =
     \<lparr> out_Response = Some \<lparr> rsp_Success = False, rsp_Message = ''gangguan'',
                             rsp_TrxID = [], rsp_SerialNumber = [], rsp_ResponseTime = 500 \<rparr>,
       out_Err = None, out_Elapsed = 0 \<rparr>"

definition ex_world :: "real \<Rightarrow> Transaction list \<Rightarrow> Supplier list \<Rightarrow> ProductMapping list \<Rightarrow> world" where
  "ex_world balance trxs sups maps =
     \<lparr> transactions = trxs,
       users = [ex_user balance],
       products = [\<lparr> prd_ID = ''p1'', prd_Code = ''T10'', prd_IsActive = True,
                     prd_BasePrice = 9800, prd_MinPrice = 9000,
                     prd_MaxTransactionAmount = 100000 \<rparr>],
       suppliers = sups, product_mappings = maps, mutations = [], queue = [],
       adapters = [(''S1'', ex_refusal)],
       clock = 1000, today = ''20240101'', slept = [], rand_src = [],
       uuid_src = [''mu1'', ''mu2''], faults = [],
       has_queueRepo = True, has_mutationRepo = True, has_smartRoutingUC = True,
       has_adapterFactory = True, has_retryUC = True \<rparr>"

text \<open>Three suppliers so slow that every simulated call of the retry controller times out.\<close>

definition ex_slow_suppliers :: "Supplier list" where
  "ex_slow_suppliers =
     [ex_supplier ''s1'' ''S1'' 1 40000, ex_supplier ''s2'' ''S2'' 2 40000,
      ex_supplier ''s3'' ''S3'' 3 40000]"

definition ex_mappings :: "ProductMapping list" where
  "ex_mappings = [ex_mapping ''m1'' ''s1'' 1, ex_mapping ''m2'' ''s2'' 2,
                  ex_mapping ''m3'' ''s3'' 3]"

text \<open>A pending transaction and three slow suppliers; the adapter of the first refuses.\<close>

definition ex_world_pending :: world where
  "ex_world_pending = ex_world 50000 [ex_trx PENDING 0 None] ex_slow_suppliers ex_mappings"

text \<open>
  The state in which a failed first attempt at supplier \<open>s1\<close> leaves the transaction when
  it hands over to the retry controller.
\<close>

definition ex_world_failed :: world where
  "ex_world_failed =
     ex_world 40000 [ex_trx FAILED 0 (Some ''s1'')] ex_slow_suppliers ex_mappings"

text \<open>A failed transaction that has two attempts on record, and one supplier.\<close>

definition ex_world_two_attempts :: world where
  "ex_world_two_attempts =
     ex_world 40000 [ex_trx FAILED 2 (Some ''s1'')] [ex_supplier ''s1'' ''S1'' 1 40000]
       [ex_mapping ''m1'' ''s1'' 1]"






section \<open>Properties\<close>

subsection \<open>Phone normalization and validation\<close>

lemma ParsePhoneNumber_digits: "list_all isDigit (ParsePhoneNumber p)"
  by (auto simp: ParsePhoneNumber_def Let_def list_all_iff isDigit_def dest: in_set_dropD)

lemma HasPrefix_iff: "HasPrefix s p \<longleftrightarrow> (\<exists>r. s = p @ r)"
  unfolding HasPrefix_def by (metis append_eq_conv_conj append_take_drop_id)

lemma ParsePhoneNumber_shape:
  "ParsePhoneNumber p =
     (case filter isDigit p of [] \<Rightarrow> []
      | c # r \<Rightarrow> if c = CHR ''0'' then ''62'' @ r else c # r)"
  by (auto simp: ParsePhoneNumber_def Let_def HasPrefix_def split: list.splits)

lemma ValidatePhoneNumber_iff:
  "ValidatePhoneNumber p \<longleftrightarrow>
     (\<exists>ds. ParsePhoneNumber p = ''62'' @ ds \<and> list_all isDigit ds
           \<and> 9 \<le> length ds \<and> length ds \<le> 13)"
  using ParsePhoneNumber_digits [of p]
  by (auto simp: ValidatePhoneNumber_def Let_def HasPrefix_iff)

text \<open>
  Claim C8. Normalization keeps the digits of the input and nothing else, a leading
  \<open>0\<close> of the digits becomes \<open>62\<close>; \<open>0812-3456-789\<close> becomes \<open>628123456789\<close> and
  \<open>+628123456789\<close> keeps its digits. Validation accepts an input exactly when its
  normalized form is \<open>62\<close> followed by 9 to 13 digits, which is 11 to 15 digits in all; an
  input with 8 digits after the prefix is refused.
\<close>

theorem C8_phone_normalization:
  "ParsePhoneNumber p =
     (case filter isDigit p of [] \<Rightarrow> []
      | c # r \<Rightarrow> if c = CHR ''0'' then ''62'' @ r else c # r)
   \<and> list_all isDigit (ParsePhoneNumber p)
   \<and> ParsePhoneNumber ''0812-3456-789'' = ''628123456789''
   \<and> ParsePhoneNumber ''+628123456789'' = ''628123456789''
   \<and> (ValidatePhoneNumber p \<longleftrightarrow>
        (\<exists>ds. ParsePhoneNumber p = ''62'' @ ds \<and> list_all isDigit ds
              \<and> 9 \<le> length ds \<and> length ds \<le> 13))
   \<and> (ValidatePhoneNumber p \<longleftrightarrow>
        (HasPrefix (ParsePhoneNumber p) ''62''
         \<and> 11 \<le> length (ParsePhoneNumber p) \<and> length (ParsePhoneNumber p) \<le> 15))
   \<and> ValidatePhoneNumber ''0812-3456-789''
   \<and> \<not> ValidatePhoneNumber ''0812-3456-7''"
proof -
  have ex1: "ParsePhoneNumber ''0812-3456-789'' = ''628123456789''"
    by (simp add: ParsePhoneNumber_def isDigit_def HasPrefix_def)
  have ex2: "ParsePhoneNumber ''+628123456789'' = ''628123456789''"
    by (simp add: ParsePhoneNumber_def isDigit_def HasPrefix_def)
  have total: "ValidatePhoneNumber p \<longleftrightarrow>
        (HasPrefix (ParsePhoneNumber p) ''62''
         \<and> 11 \<le> length (ParsePhoneNumber p) \<and> length (ParsePhoneNumber p) \<le> 15)"
    by (auto simp: ValidatePhoneNumber_def Let_def)
  have ok: "ValidatePhoneNumber ''0812-3456-789''"
    by (simp add: ValidatePhoneNumber_def ParsePhoneNumber_def isDigit_def HasPrefix_def)
  have short: "\<not> ValidatePhoneNumber ''0812-3456-7''"
    by (simp add: ValidatePhoneNumber_def ParsePhoneNumber_def isDigit_def HasPrefix_def)
  show ?thesis
    using ParsePhoneNumber_shape [of p] ParsePhoneNumber_digits [of p]
      ValidatePhoneNumber_iff [of p] ex1 ex2 total ok short
    by blast
qed

subsection \<open>Reads leave the tables alone\<close>

lemma db_call_frame: "db_call w = (ok, w1) \<Longrightarrow> w1 = w\<lparr> faults := faults w1 \<rparr>"
  by (auto simp: db_call_def split: list.splits)

lemma transactionRepo_GetByID_frame:
  "transactionRepo_GetByID tid w = (r, w1) \<Longrightarrow> w1 = w\<lparr> faults := faults w1 \<rparr>"
  by (auto simp: transactionRepo_GetByID_def
      split: prod.splits option.splits if_splits dest: db_call_frame)

lemma userRepo_GetByID_frame:
  "userRepo_GetByID uid w = (r, w1) \<Longrightarrow> w1 = w\<lparr> faults := faults w1 \<rparr>"
  by (auto simp: userRepo_GetByID_def
      split: prod.splits option.splits if_splits dest: db_call_frame)

lemma productRepo_GetByCode_frame:
  "productRepo_GetByCode c w = (r, w1) \<Longrightarrow> w1 = w\<lparr> faults := faults w1 \<rparr>"
  by (auto simp: productRepo_GetByCode_def
      split: prod.splits option.splits if_splits dest: db_call_frame)

lemma transactionRepo_GetByID_tables:
  assumes "transactionRepo_GetByID tid w = (r, w1)"
  shows "transactions w1 = transactions w" and "users w1 = users w"
    and "mutations w1 = mutations w" and "queue w1 = queue w"
    and "suppliers w1 = suppliers w"
  by (subst transactionRepo_GetByID_frame [OF assms], simp)+

subsection \<open>The gate of RetryFailedTransaction\<close>

text \<open>
  Claim C10. \<open>CanRetry\<close> holds exactly when the status is FAILED and \<open>routing_attempts\<close>
  is below 3; no configuration enters. When the transaction read from the store has
  another status, or 3 or more attempts, \<open>RetryFailedTransaction\<close> returns the error
  "transaction cannot be retried" and the state after it is the state after the read: no
  table has changed.
\<close>

theorem C10_CanRetry_gate:
  "(CanRetry t \<longleftrightarrow> trx_Status t = FAILED \<and> trx_RoutingAttempts t < 3)
   \<and> (transactionRepo_GetByID tid w = (Inr t, w1)
        \<and> (trx_Status t \<noteq> FAILED \<or> trx_RoutingAttempts t \<ge> 3)
      \<longrightarrow> RetryFailedTransaction tid w = (Inl TransactionCannotBeRetried, w1)
          \<and> w1 = w\<lparr> faults := faults w1 \<rparr>
          \<and> transactions w1 = transactions w)"
proof -
  have a: "CanRetry t \<longleftrightarrow> trx_Status t = FAILED \<and> trx_RoutingAttempts t < 3"
    by (simp add: CanRetry_def)
  have b: "RetryFailedTransaction tid w = (Inl TransactionCannotBeRetried, w1)
          \<and> w1 = w\<lparr> faults := faults w1 \<rparr> \<and> transactions w1 = transactions w"
    if g: "transactionRepo_GetByID tid w = (Inr t, w1)"
      and n: "trx_Status t \<noteq> FAILED \<or> trx_RoutingAttempts t \<ge> 3"
  proof -
    from n have "\<not> CanRetry t" by (auto simp: CanRetry_def)
    with g have "RetryFailedTransaction tid w = (Inl TransactionCannotBeRetried, w1)"
      by (simp add: RetryFailedTransaction_def)
    moreover have "w1 = w\<lparr> faults := faults w1 \<rparr>"
      using transactionRepo_GetByID_frame [OF g] .
    moreover have "transactions w1 = transactions w"
      using transactionRepo_GetByID_tables(1) [OF g] .
    ultimately show ?thesis by blast
  qed
  show ?thesis using a b by blast
qed

lemma ex_GetByID:
  "transactionRepo_GetByID ''t1'' (ex_world b [ex_trx st n sid] sups maps)
     = (Inr (ex_trx st n sid), ex_world b [ex_trx st n sid] sups maps)"
  by (simp add: transactionRepo_GetByID_def db_call_def ex_world_def ex_trx_def)

theorem C10_CanRetry_gate_witness:
  "RetryFailedTransaction ''t1'' (ex_world 50000 [ex_trx TIMEOUT 0 None] [] [])
     = (Inl TransactionCannotBeRetried, ex_world 50000 [ex_trx TIMEOUT 0 None] [] [])
   \<and> RetryFailedTransaction ''t1'' (ex_world 50000 [ex_trx FAILED 3 None] [] [])
     = (Inl TransactionCannotBeRetried, ex_world 50000 [ex_trx FAILED 3 None] [] [])
   \<and> \<not> CanRetry (ex_trx REFUND 0 None) \<and> CanRetry (ex_trx FAILED 2 None)"
proof -
  have s1: "trx_Status (ex_trx TIMEOUT 0 None) \<noteq> FAILED" by (simp add: ex_trx_def)
  have s2: "trx_RoutingAttempts (ex_trx FAILED 3 None) \<ge> 3" by (simp add: ex_trx_def)
  have c1: "\<not> CanRetry (ex_trx REFUND 0 None)"
    using C10_CanRetry_gate [of "ex_trx REFUND 0 None"] by (simp add: ex_trx_def)
  have c2: "CanRetry (ex_trx FAILED 2 None)"
    using C10_CanRetry_gate [of "ex_trx FAILED 2 None"] by (simp add: ex_trx_def)
  show ?thesis
    using C10_CanRetry_gate [of "ex_trx TIMEOUT 0 None" "''t1''"
        "ex_world 50000 [ex_trx TIMEOUT 0 None] [] []"
        "ex_world 50000 [ex_trx TIMEOUT 0 None] [] []"]
      C10_CanRetry_gate [of "ex_trx FAILED 3 None" "''t1''"
        "ex_world 50000 [ex_trx FAILED 3 None] [] []"
        "ex_world 50000 [ex_trx FAILED 3 None] [] []"]
      ex_GetByID s1 s2 c1 c2
    by blast
qed

subsection \<open>CreateTransaction with insufficient balance\<close>

text \<open>
  Claim C7. Let the user and the product of the request be found, and let the user's
  spending power (balance, plus the credit limit when debt is allowed) be below the selling
  price computed for this user. Then \<open>CreateTransaction\<close> returns an error and writes
  nothing: the transactions, the queue, the mutations and the users are as before. When the
  request passes the checks that come before the balance check (fields present, phone
  number valid, user and product active, price within the product's limits), the error is
  "insufficient balance".
\<close>

theorem C7_insufficient_balance_rejected:
  assumes u: "userRepo_GetByID userID w = (Inr user, w1)"
    and p: "productRepo_GetByCode productCode w1 = (Inr product, w2)"
    and poor: "usr_Balance user + (if usr_AllowDebt user then usr_CreditLimit user else 0)
               < GetEffectivePrice user (prd_BasePrice product)"
  shows "isl (fst (CreateTransaction userID productCode destinationNumber w))
    \<and> transactions (snd (CreateTransaction userID productCode destinationNumber w))
        = transactions w
    \<and> queue (snd (CreateTransaction userID productCode destinationNumber w)) = queue w
    \<and> mutations (snd (CreateTransaction userID productCode destinationNumber w))
        = mutations w
    \<and> users (snd (CreateTransaction userID productCode destinationNumber w)) = users w
    \<and> (userID \<noteq> [] \<and> productCode \<noteq> [] \<and> destinationNumber \<noteq> []
        \<and> ValidatePhoneNumber destinationNumber \<and> usr_IsActive user \<and> prd_IsActive product
        \<and> prd_MinPrice product \<le> GetEffectivePrice user (prd_BasePrice product)
        \<and> GetEffectivePrice user (prd_BasePrice product) \<le> prd_MaxTransactionAmount product
       \<longrightarrow> CreateTransaction userID productCode destinationNumber w
             = (Inl InsufficientBalance, w2))"
proof -
  from poor
  have nb: "\<not> HasSufficientBalance user (GetEffectivePrice user (prd_BasePrice product))"
    by (auto simp: HasSufficientBalance_def split: if_splits)
  have f1: "w1 = w\<lparr> faults := faults w1 \<rparr>" using userRepo_GetByID_frame [OF u] .
  have f2: "w2 = w1\<lparr> faults := faults w2 \<rparr>" using productRepo_GetByCode_frame [OF p] .
  have t1: "transactions w1 = transactions w" "queue w1 = queue w"
    "mutations w1 = mutations w" "users w1 = users w"
    by (subst f1, simp)+
  have t2: "transactions w2 = transactions w" "queue w2 = queue w"
    "mutations w2 = mutations w" "users w2 = users w"
    by (subst f2, simp add: t1)+
  show ?thesis
    using u p nb t1 t2
    by (simp add: CreateTransaction_def Let_def)
qed

theorem C7_insufficient_balance_rejected_witness:
  "CreateTransaction ''u1'' ''T10'' ''0812-3456-789'' (ex_world 5000 [] [] [])
     = (Inl InsufficientBalance, ex_world 5000 [] [] [])"
proof -
  let ?w = "ex_world 5000 [] [] []"
  let ?p = "\<lparr> prd_ID = ''p1'', prd_Code = ''T10'', prd_IsActive = True,
              prd_BasePrice = 9800, prd_MinPrice = 9000,
              prd_MaxTransactionAmount = 100000 \<rparr>"
  have u: "userRepo_GetByID ''u1'' ?w = (Inr (ex_user 5000), ?w)"
    by (simp add: userRepo_GetByID_def db_call_def ex_world_def ex_user_def)
  have p: "productRepo_GetByCode ''T10'' ?w = (Inr ?p, ?w)"
    by (simp add: productRepo_GetByCode_def db_call_def ex_world_def)
  have poor: "usr_Balance (ex_user 5000)
               + (if usr_AllowDebt (ex_user 5000) then usr_CreditLimit (ex_user 5000) else 0)
             < GetEffectivePrice (ex_user 5000) (prd_BasePrice ?p)"
    by (simp add: ex_user_def GetEffectivePrice_def LevelAdmin_def)
  have v: "ValidatePhoneNumber ''0812-3456-789''"
    by (simp add: ValidatePhoneNumber_def ParsePhoneNumber_def isDigit_def HasPrefix_def)
  have a: "usr_IsActive (ex_user 5000)" "prd_IsActive ?p"
    "prd_MinPrice ?p \<le> GetEffectivePrice (ex_user 5000) (prd_BasePrice ?p)"
    "GetEffectivePrice (ex_user 5000) (prd_BasePrice ?p) \<le> prd_MaxTransactionAmount ?p"
    by (simp_all add: ex_user_def GetEffectivePrice_def LevelAdmin_def)
  show ?thesis
    using C7_insufficient_balance_rejected [OF u p poor, of "''0812-3456-789''"] v a
    by simp
qed

subsection \<open>Supplier metrics\<close>



subsection \<open>Backoff schedule of the retry controller\<close>












subsection \<open>Ranking of the candidate suppliers\<close>



















subsection \<open>Terminal states\<close>




subsection \<open>Refund after the retries are exhausted\<close>

text \<open>
  Claim C1 on the code. The user has a balance of 50000 and a pending transaction of
  10000; the adapter of the selected supplier refuses, and every attempt of the retry
  controller times out. \<open>ProcessTransaction\<close> returns without error and the transaction is
  in REFUND, but the only mutation that refers to it is the credit (money out) of 10000:
  \<open>issueRefund\<close> creates no debit mutation, and the balance stays at 40000.
\<close>

theorem C1_retry_refund_creates_no_mutation:
  "fst (ProcessTransaction ''t1'' ex_world_pending) = Inr ()
   \<and> map (\<lambda>t. (trx_ID t, trx_Status t, trx_SellingPrice t))
        (transactions (snd (ProcessTransaction ''t1'' ex_world_pending)))
       = [(''t1'', REFUND, 10000)]
   \<and> map (\<lambda>m. (mut_Type m, mut_Amount m, mut_ReferenceID m))
        (mutations (snd (ProcessTransaction ''t1'' ex_world_pending)))
       = [(CREDIT, 10000, Some ''t1'')]
   \<and> map usr_Balance (users ex_world_pending) = [50000]
   \<and> map usr_Balance (users (snd (ProcessTransaction ''t1'' ex_world_pending))) = [40000]"
  by code_simp

subsection \<open>The attempt counter\<close>

text \<open>
  Claim C3 on the code. A failed transaction has two attempts on record and its product
  has one supplier. \<open>RetryTransaction\<close> makes one attempt, writes the number of that
  attempt, 1, into \<open>routing_attempts\<close>, and leaves the counter at 1.
\<close>

theorem C3_retry_overwrites_routing_attempts:
  "map trx_RoutingAttempts (transactions ex_world_two_attempts) = [2]
   \<and> map trx_RoutingAttempts
        (transactions (snd (RetryTransaction ''t1'' None ex_world_two_attempts))) = [1]
   \<and> map_sum id rr_AttemptsMade (fst (RetryTransaction ''t1'' None ex_world_two_attempts))
       = Inr 1"
  by code_simp

subsection \<open>The suppliers the retry walks\<close>

text \<open>
  Claim C6 on the code. The first attempt of the transaction was at supplier \<open>s1\<close> and
  failed. The list of \<open>getFailoverSuppliers\<close> starts with \<open>s1\<close>, and the first attempt
  of \<open>RetryTransaction\<close> is at \<open>s1\<close> again. In the whole run of \<open>ProcessTransaction\<close>
  the supplier \<open>s1\<close> is charged two calls in its metrics, \<open>s2\<close> one and \<open>s3\<close> none.
\<close>

theorem C6_failover_list_contains_tried_supplier:
  "map trx_SupplierID (transactions ex_world_failed) = [Some ''s1'']
   \<and> map_sum id (map sup_ID) (fst (getFailoverSuppliers ''p1'' 3 ex_world_failed))
       = Inr [''s1'', ''s2'']
   \<and> map_sum id (\<lambda>r. map att_SupplierID (rr_AttemptHistory r))
        (fst (RetryTransaction ''t1'' None ex_world_failed))
       = Inr [''s1'', ''s2'']
   \<and> map sup_TotalTransactions (suppliers ex_world_pending) = [1000, 1000, 1000]
   \<and> map sup_TotalTransactions (suppliers (snd (ProcessTransaction ''t1'' ex_world_pending)))
       = [1002, 1001, 1000]"
  by code_simp

end
